theory Spec2Isabelle
  imports Main
begin

section \<open>The PAM PostgreSQL query pipeline\<close>

text \<open>
  A shallow embedding of \<^verbatim>\<open>pam-pgsql-proxy-service.ts\<close> (the session pipeline and the
  direct connection pool) and of \<^verbatim>\<open>pam-pgsql-tcp-gateway-service.ts\<close> (the tunnel
  builder and the tunnel registry).

  Every \<^verbatim>\<open>async\<close> method is modelled as one sequential run: a function from the state
  before the call to the result and the state after it. What the collaborators, the
  network and the database driver answer is a parameter of the run. A \<^verbatim>\<open>throw\<close> or a
  rejected promise is the \<open>Inl\<close> branch of a sum, a returned value the \<open>Inr\<close> branch.
  Strings are lists of ASCII characters; a \<^verbatim>\<open>Date\<close> is its time value in milliseconds.
\<close>

subsection \<open>Thrown values\<close>

text \<open>
  Modelled from the spec: the classes \<^verbatim>\<open>BadRequestError\<close> and \<^verbatim>\<open>NotFoundError\<close> of
  \<^verbatim>\<open>@app/lib/errors\<close> are imported by the sources but are not among them. They are
  taken as two kinds of \<^verbatim>\<open>Error\<close> whose \<^verbatim>\<open>message\<close> is the one given to the
  constructor. \<open>Error\<close> is any other \<^verbatim>\<open>Error\<close> instance (a driver error, a
  \<^verbatim>\<open>TypeError\<close>), \<open>NonError\<close> a thrown value that is not an \<^verbatim>\<open>Error\<close>.
\<close>

datatype thrown =
    BadRequestError string
  | NotFoundError string
  | Error string
  | NonError

text \<open>\<^verbatim>\<open>error instanceof Error ? error.message : fallback\<close>\<close>

fun message_or :: "thrown \<Rightarrow> string \<Rightarrow> string" where
  "message_or (BadRequestError m) fallback = m"
| "message_or (NotFoundError m) fallback = m"
| "message_or (Error m) fallback = m"
| "message_or NonError fallback = fallback"

text \<open>JavaScript truthiness of an optional string: \<^verbatim>\<open>!s\<close> holds for \<^verbatim>\<open>undefined\<close>,
  \<^verbatim>\<open>null\<close> and the empty string.\<close>

fun falsy :: "string option \<Rightarrow> bool" where
  "falsy None = True"
| "falsy (Some s) = (s = [])"

text \<open>Optional chaining \<^verbatim>\<open>obj?.field\<close> on an optional object with an optional field.\<close>

fun opt_chain :: "'a option \<Rightarrow> ('a \<Rightarrow> 'b option) \<Rightarrow> 'b option" where
  "opt_chain None f = None"
| "opt_chain (Some obj) f = f obj"

subsection \<open>Records of the persistence layer and of the collaborators\<close>

type_synonym date = int

text \<open>
  Modelled from the spec: the enum \<^verbatim>\<open>PamSessionStatus\<close> of \<^verbatim>\<open>pam-session-enums\<close> is
  not among the sources; the spec and the tests name \<open>Starting\<close>, \<open>Active\<close> and
  \<open>Ended\<close>, every other status is \<open>OtherStatus\<close>.
\<close>

datatype PamSessionStatus = Starting | Active | Ended | OtherStatus string

record session =
  s_id :: string
  s_status :: PamSessionStatus
  s_accountId :: string
  s_projectId :: string
  s_expiresAt :: "date option"

record account =
  a_id :: string
  a_resourceId :: string

record resource =
  r_id :: string
  r_gatewayId :: "string option"

record credentials =
  c_host :: string
  c_port :: nat
  c_database :: string
  c_username :: string
  c_password :: string
  c_sslEnabled :: bool
  c_sslRejectUnauthorized :: bool
  c_sslCertificate :: "string option"

type_synonym actor = string

record certificates =
  clientCertificate :: "string option"
  clientPrivateKey :: "string option"
  serverCertificateChain :: "string option"

text \<open>The nested bundle returned by \<^verbatim>\<open>gatewayV2Service.getPAMConnectionDetails\<close>.\<close>

record connection_details =
  cd_relayHost :: "string option"
  cd_relay :: "certificates option"
  cd_gateway :: "certificates option"

text \<open>The argument of \<^verbatim>\<open>getPAMConnectionDetails\<close>; the resource type is always
  \<^verbatim>\<open>PamResource.Postgres\<close> and the actor type \<^verbatim>\<open>ActorType.USER\<close>.\<close>

record pam_request =
  rq_sessionId :: string
  rq_gatewayId :: "string option"
  rq_host :: string
  rq_port :: nat
  rq_actorId :: string
  rq_actorName :: string

text \<open>The collaborators of \<^verbatim>\<open>PamPostgresProxyService\<close>, each call answering with a
  value or throwing, and the reading of the clock (\<^verbatim>\<open>new Date()\<close>).\<close>

record collaborators =
  pamSessionDAL_findById :: "string \<Rightarrow> thrown + session option"
  pamAccountDAL_findById :: "string \<Rightarrow> thrown + account option"
  pamResourceDAL_findById :: "string \<Rightarrow> thrown + resource option"
  pamAccountService_getSessionCredentials :: "string \<Rightarrow> actor \<Rightarrow> thrown + credentials"
  gatewayV2Service_getPAMConnectionDetails :: "pam_request \<Rightarrow> thrown + connection_details option"
  now :: date

subsection \<open>The resolver: \<^verbatim>\<open>validateSession\<close>, \<^verbatim>\<open>getResourceForSession\<close> and the rest\<close>

text \<open>\<^verbatim>\<open>expiresAt\<close> is a \<^verbatim>\<open>Date\<close> object or absent; an object is truthy, so the guard
  \<^verbatim>\<open>sessionFromDb.expiresAt && new Date(sessionFromDb.expiresAt) <= new Date()\<close> is the
  comparison when the field is present and false when it is absent.\<close>

definition validateSession :: "collaborators \<Rightarrow> string \<Rightarrow> thrown + session" where
  "validateSession deps sessionId =
     (case pamSessionDAL_findById deps sessionId of
        Inl error \<Rightarrow> Inl error
      | Inr None \<Rightarrow> Inl (NotFoundError (''Session with ID '' @ [CHR 0x27] @ sessionId @ [CHR 0x27] @ '' not found''))
      | Inr (Some sessionFromDb) \<Rightarrow>
          if s_status sessionFromDb = Ended then Inl (BadRequestError ''Session has ended'')
          else if (case s_expiresAt sessionFromDb of None \<Rightarrow> False | Some expiresAt \<Rightarrow> expiresAt \<le> now deps)
          then Inl (BadRequestError ''Session has expired'')
          else Inr sessionFromDb)"

definition getResourceForSession :: "collaborators \<Rightarrow> session \<Rightarrow> thrown + resource" where
  "getResourceForSession deps sess =
     (case pamAccountDAL_findById deps (s_accountId sess) of
        Inl error \<Rightarrow> Inl error
      | Inr None \<Rightarrow> Inl (NotFoundError ''Account not found'')
      | Inr (Some acct) \<Rightarrow>
          (case pamResourceDAL_findById deps (a_resourceId acct) of
             Inl error \<Rightarrow> Inl error
           | Inr None \<Rightarrow> Inl (NotFoundError ''Resource not found'')
           | Inr (Some res) \<Rightarrow>
               if falsy (r_gatewayId res)
               then Inl (BadRequestError ''Resource does not have a gateway configured'')
               else Inr res))"

definition getSessionCredentials :: "collaborators \<Rightarrow> string \<Rightarrow> actor \<Rightarrow> thrown + credentials" where
  "getSessionCredentials deps sessionId act = pamAccountService_getSessionCredentials deps sessionId act"

text \<open>\<^verbatim>\<open>PamPostgresProxyService.getGatewayConnectionDetails\<close>: the whole body stands in a
  \<^verbatim>\<open>try\<close> whose \<^verbatim>\<open>catch\<close> replaces every thrown value, the method's own
  \<^verbatim>\<open>BadRequestError\<close> for an absent bundle included.\<close>

definition proxy_getGatewayConnectionDetails ::
  "collaborators \<Rightarrow> string \<Rightarrow> string option \<Rightarrow> thrown + connection_details option" where
  "proxy_getGatewayConnectionDetails deps sessionId gatewayId =
     (let attempt =
        (case gatewayV2Service_getPAMConnectionDetails deps
                \<lparr>rq_sessionId = sessionId, rq_gatewayId = gatewayId, rq_host = ''localhost'',
                 rq_port = 8443, rq_actorId = ''system'', rq_actorName = ''PAM Gateway Proxy''\<rparr> of
           Inl error \<Rightarrow> Inl error
         | Inr None \<Rightarrow> Inl (BadRequestError ''No connection details returned from gateway service'')
         | Inr (Some connectionDetails) \<Rightarrow> Inr (Some connectionDetails))
      in case attempt of
           Inl error \<Rightarrow> Inl (BadRequestError ''Failed to get gateway connection details for TCP tunnel'')
         | Inr connectionDetails \<Rightarrow> Inr connectionDetails)"

subsection \<open>The flat connection details and the relay host\<close>

text \<open>\<^verbatim>\<open>PostgresGatewayConnectionDetails\<close>. The interface declares every field a
  \<^verbatim>\<open>string\<close>, but the values come out of optional chaining, so each may be absent.\<close>

record PostgresGatewayConnectionDetails =
  relayHost :: "string option"
  relayClientCertificate :: "string option"
  relayClientPrivateKey :: "string option"
  relayServerCertificateChain :: "string option"
  gatewayClientCertificate :: "string option"
  gatewayClientPrivateKey :: "string option"
  gatewayServerCertificateChain :: "string option"
  sessionId :: string

text \<open>The object literal \<^verbatim>\<open>tunnelDetails\<close> of
  \<^verbatim>\<open>PamPostgresProxyService.executeQueryThroughTunnel\<close>.\<close>

definition tunnelDetails :: "connection_details \<Rightarrow> string \<Rightarrow> PostgresGatewayConnectionDetails" where
  "tunnelDetails gatewayDetails sid =
     \<lparr>relayHost = cd_relayHost gatewayDetails,
      relayClientCertificate = opt_chain (cd_relay gatewayDetails) clientCertificate,
      relayClientPrivateKey = opt_chain (cd_relay gatewayDetails) clientPrivateKey,
      relayServerCertificateChain = opt_chain (cd_relay gatewayDetails) serverCertificateChain,
      gatewayClientCertificate = opt_chain (cd_gateway gatewayDetails) clientCertificate,
      gatewayClientPrivateKey = opt_chain (cd_gateway gatewayDetails) clientPrivateKey,
      gatewayServerCertificateChain = opt_chain (cd_gateway gatewayDetails) serverCertificateChain,
      sessionId = sid\<rparr>"

text \<open>\<^verbatim>\<open>PamPostgresTcpGatewayService.getGatewayConnectionDetails\<close>: the same projection,
  after the call of the gateway service (whose errors are not caught here).\<close>

text \<open>The argument this service passes to \<^verbatim>\<open>getPAMConnectionDetails\<close>: the gateway goes
  under the key \<^verbatim>\<open>gatewayIdentityId\<close>, not \<^verbatim>\<open>gatewayId\<close>.\<close>

record pam_identity_request =
  iq_sessionId :: string
  iq_gatewayIdentityId :: string
  iq_host :: string
  iq_port :: nat
  iq_actorId :: string
  iq_actorName :: string

definition tcp_getGatewayConnectionDetails ::
  "(pam_identity_request \<Rightarrow> thrown + connection_details option) \<Rightarrow> string \<Rightarrow> string
     \<Rightarrow> thrown + PostgresGatewayConnectionDetails" where
  "tcp_getGatewayConnectionDetails getPAMConnectionDetails sid gatewayIdentityId =
     (case getPAMConnectionDetails
             \<lparr>iq_sessionId = sid, iq_gatewayIdentityId = gatewayIdentityId, iq_host = ''localhost'',
              iq_port = 8443, iq_actorId = ''system'', iq_actorName = ''PAM TCP Gateway''\<rparr> of
        Inl error \<Rightarrow> Inl error
      | Inr None \<Rightarrow> Inl (BadRequestError ''Failed to get gateway connection details'')
      | Inr (Some connectionDetails) \<Rightarrow>
          Inr \<lparr>relayHost = cd_relayHost connectionDetails,
               relayClientCertificate = opt_chain (cd_relay connectionDetails) clientCertificate,
               relayClientPrivateKey = opt_chain (cd_relay connectionDetails) clientPrivateKey,
               relayServerCertificateChain = opt_chain (cd_relay connectionDetails) serverCertificateChain,
               gatewayClientCertificate = opt_chain (cd_gateway connectionDetails) clientCertificate,
               gatewayClientPrivateKey = opt_chain (cd_gateway connectionDetails) clientPrivateKey,
               gatewayServerCertificateChain = opt_chain (cd_gateway connectionDetails) serverCertificateChain,
               sessionId = sid\<rparr>)"

text \<open>A JavaScript number that holds an integer, an infinity or \<^verbatim>\<open>NaN\<close>. A number is a
  double, so \<open>Num n\<close> is built only for integers that a double holds exactly.\<close>

datatype number = NaN | Num int | PosInfinity | NegInfinity

text \<open>
  The double nearest to a natural number. A double has 53 significant bits:
  \<open>shift_count n\<close> is the number of low bits of \<open>n\<close> that do not fit, and \<open>to_double\<close>
  rounds them away to the nearest multiple (a tie goes to the even one); a result of
  \<open>2 ^ 1024\<close> or more is beyond the largest double and becomes an infinity (\<open>None\<close>).
  Below \<open>2 ^ 53\<close> every natural number is its own double.
\<close>

fun shift_count :: "nat \<Rightarrow> nat" where
  "shift_count n = (if n < 2 ^ 53 then 0 else Suc (shift_count (n div 2)))"

declare shift_count.simps [simp del]

definition to_double :: "nat \<Rightarrow> nat option" where
  "to_double n =
     (let e = shift_count n;
          q = n div 2 ^ e;
          r = n mod 2 ^ e;
          q' = (if 2 ^ e < 2 * r \<or> (2 * r = 2 ^ e \<and> odd q) then q + 1 else q);
          m = q' * 2 ^ e
      in if m < 2 ^ 1024 then Some m else None)"

text \<open>\<^verbatim>\<open>s.split(sep)\<close> for a one-character separator. The result of \<^verbatim>\<open>split\<close> is never
  empty, so it is given as its first element and the list of the others.\<close>

fun split :: "char \<Rightarrow> string \<Rightarrow> string \<times> string list" where
  "split sep [] = ([], [])"
| "split sep (c # cs) =
     (case split sep cs of (w, ws) \<Rightarrow> if c = sep then ([], w # ws) else (c # w, ws))"

definition is_digit :: "char \<Rightarrow> bool" where
  "is_digit c = (48 \<le> (of_char c :: nat) \<and> (of_char c :: nat) \<le> 57)"

definition is_whitespace :: "char \<Rightarrow> bool" where
  "is_whitespace c = ((of_char c :: nat) \<in> {9, 10, 11, 12, 13, 32})"

fun digits_value :: "nat \<Rightarrow> string \<Rightarrow> nat" where
  "digits_value acc [] = acc"
| "digits_value acc (c # cs) = digits_value (10 * acc + (of_char c - 48)) cs"

text \<open>\<^verbatim>\<open>parseInt(s, 10)\<close>: leading white space is skipped, one sign is read, then the
  longest run of decimal digits; no digit gives \<^verbatim>\<open>NaN\<close>, and what follows the digits is
  ignored. The result is the double nearest to the integer read (as V8 computes it).
  \<^verbatim>\<open>parseInt(undefined, 10)\<close> is \<^verbatim>\<open>NaN\<close>.\<close>

definition parseInt :: "string option \<Rightarrow> number" where
  "parseInt str =
     (case str of
        None \<Rightarrow> NaN
      | Some s \<Rightarrow>
          (let t = dropWhile is_whitespace s;
               negative = (case t of [] \<Rightarrow> False | c # _ \<Rightarrow> c = CHR ''-'');
               u = (case t of [] \<Rightarrow> [] | c # r \<Rightarrow> if c = CHR ''-'' \<or> c = CHR ''+'' then r else t);
               ds = takeWhile is_digit u
           in if ds = [] then NaN
              else (case to_double (digits_value 0 ds) of
                      None \<Rightarrow> if negative then NegInfinity else PosInfinity
                    | Some m \<Rightarrow> Num ((if negative then - 1 else 1) * int m))))"

text \<open>The first lines of the executor of \<^verbatim>\<open>createRelayConnection\<close>:
  \<^verbatim>\<open>let host = relayHost; let port = 8443; if (relayHost.includes(":")) { const [hostPart,
  portStr] = relayHost.split(":"); host = hostPart; port = parseInt(portStr, 10); }\<close>\<close>

definition parseRelayHost :: "string \<Rightarrow> string \<times> number" where
  "parseRelayHost rh =
     (if CHR '':'' \<in> set rh
      then (case split CHR '':'' rh of
              (hostPart, []) \<Rightarrow> (hostPart, parseInt None)
            | (hostPart, portStr # _) \<Rightarrow> (hostPart, parseInt (Some portStr)))
      else (rh, Num 8443))"

text \<open>\<^verbatim>\<open>tls.ConnectionOptions\<close>, with the fields the two legs set.\<close>

record ConnectionOptions =
  host :: "string option"
  port :: "number option"
  cert :: string
  key :: string
  ca :: string
  rejectUnauthorized :: bool
  minVersion :: string
  maxVersion :: "string option"
  ALPNProtocols :: "string list"
  servername :: string
  socket :: "nat option"

text \<open>The synchronous part of \<^verbatim>\<open>createRelayConnection\<close>, up to the call of
  \<^verbatim>\<open>tls.connect\<close>: the options of the connection, or the value the promise is rejected
  with. An absent \<^verbatim>\<open>relayHost\<close> makes \<^verbatim>\<open>relayHost.includes\<close> throw a \<^verbatim>\<open>TypeError\<close>.\<close>

definition relayTlsConfig :: "PostgresGatewayConnectionDetails \<Rightarrow> thrown + ConnectionOptions" where
  "relayTlsConfig gatewayDetails =
     (case relayHost gatewayDetails of
        None \<Rightarrow> Inl (Error ''Cannot read properties of undefined (reading 'includes')'')
      | Some rh \<Rightarrow>
          (case parseRelayHost rh of
             (h, p) \<Rightarrow>
               if falsy (relayClientCertificate gatewayDetails)
                  \<or> falsy (relayClientPrivateKey gatewayDetails)
                  \<or> falsy (relayServerCertificateChain gatewayDetails)
               then Inl (Error ''Missing relay TLS certificates or keys'')
               else Inr \<lparr>host = Some h, port = Some p,
                         cert = the (relayClientCertificate gatewayDetails),
                         key = the (relayClientPrivateKey gatewayDetails),
                         ca = the (relayServerCertificateChain gatewayDetails),
                         rejectUnauthorized = True, minVersion = ''TLSv1.2'', maxVersion = None,
                         ALPNProtocols = [], servername = h, socket = None\<rparr>))"

text \<open>The synchronous part of \<^verbatim>\<open>createGatewayConnection\<close>.\<close>

definition gatewayTlsConfig :: "nat \<Rightarrow> PostgresGatewayConnectionDetails \<Rightarrow> thrown + ConnectionOptions" where
  "gatewayTlsConfig relaySock gatewayDetails =
     (if falsy (gatewayClientCertificate gatewayDetails)
         \<or> falsy (gatewayClientPrivateKey gatewayDetails)
         \<or> falsy (gatewayServerCertificateChain gatewayDetails)
      then Inl (Error ''Missing gateway TLS certificates or keys'')
      else Inr \<lparr>host = None, port = None,
                cert = the (gatewayClientCertificate gatewayDetails),
                key = the (gatewayClientPrivateKey gatewayDetails),
                ca = the (gatewayServerCertificateChain gatewayDetails),
                rejectUnauthorized = False, minVersion = ''TLSv1.2'', maxVersion = Some ''TLSv1.3'',
                ALPNProtocols = [''infisical-pam-proxy''], servername = ''localhost'',
                socket = Some relaySock\<rparr>)"

subsection \<open>The tunnel registry and the two TLS legs\<close>

record PostgresTunnelConnection =
  relaySocket :: nat
  gatewaySocket :: nat
  isActive :: bool

text \<open>
  The state of a \<^verbatim>\<open>PamPostgresTcpGatewayService\<close> and of the sockets it has opened.
  A socket is named by a number; \<open>sockets\<close> maps every socket opened so far to its
  \<^verbatim>\<open>destroyed\<close> flag, \<open>next_socket\<close> is the name the next \<^verbatim>\<open>tls.connect\<close> gives, and
  \<open>destroy_calls\<close> lists the calls of \<^verbatim>\<open>destroy()\<close>, the latest first. The flag is set
  by \<^verbatim>\<open>destroy()\<close> only: what the runtime itself does to a socket after an error event
  is not part of the state.
\<close>

record tunnel_state =
  activeTunnels :: "string \<rightharpoonup> PostgresTunnelConnection"
  sockets :: "nat \<rightharpoonup> bool"
  next_socket :: nat
  destroy_calls :: "nat list"

definition tls_connect :: "tunnel_state \<Rightarrow> nat \<times> tunnel_state" where
  "tls_connect st =
     (next_socket st,
      st\<lparr>sockets := (sockets st)(next_socket st \<mapsto> False), next_socket := Suc (next_socket st)\<rparr>)"

text \<open>\<^verbatim>\<open>if (sock && !sock.destroyed) sock.destroy()\<close>\<close>

definition destroy_socket :: "nat \<Rightarrow> tunnel_state \<Rightarrow> tunnel_state" where
  "destroy_socket sock st =
     (if sockets st sock = Some False
      then st\<lparr>sockets := (sockets st)(sock \<mapsto> True), destroy_calls := sock # destroy_calls st\<rparr>
      else st)"

text \<open>\<^verbatim>\<open>closeTunnel\<close>: the handle is marked inactive, the gateway socket is destroyed, then
  the relay socket, and the entry is deleted. The handle lives in the map only, so its
  \<^verbatim>\<open>isActive\<close> flag goes with the entry. \<^verbatim>\<open>destroy()\<close> of a socket returns the socket
  and does not throw, so the \<^verbatim>\<open>catch\<close> around the two calls has no branch here.\<close>

definition closeTunnel :: "string \<Rightarrow> tunnel_state \<Rightarrow> tunnel_state" where
  "closeTunnel sid st =
     (case activeTunnels st sid of
        None \<Rightarrow> st
      | Some tunnel \<Rightarrow>
          (let st1 = st\<lparr>activeTunnels := (activeTunnels st)(sid \<mapsto> tunnel\<lparr>isActive := False\<rparr>)\<rparr>;
               st2 = destroy_socket (gatewaySocket tunnel) st1;
               st3 = destroy_socket (relaySocket tunnel) st2
           in st3\<lparr>activeTunnels := (activeTunnels st3)(sid := None)\<rparr>))"

text \<open>The first event of the relay socket after \<^verbatim>\<open>tls.connect\<close>: the connect callback
  (with \<^verbatim>\<open>socket.authorized\<close> and \<^verbatim>\<open>String(socket.authorizationError)\<close>), an
  \<^verbatim>\<open>error\<close> event with its message, or the timeout of 10 seconds.\<close>

datatype relay_event = RelayConnect bool string | RelayError string | RelayTimeout

text \<open>The first event of the gateway socket: \<^verbatim>\<open>secureConnect\<close> (with whether
  \<^verbatim>\<open>getProtocol()\<close> is truthy and \<^verbatim>\<open>String(gatewaySocket.authorizationError)\<close>), an
  \<^verbatim>\<open>error\<close> event, or the timeout.\<close>

datatype gateway_event = GatewaySecureConnect bool string | GatewayError string | GatewayTimeout

record query_result =
  qr_fields :: "(string \<times> string) list"
  qr_rows :: "string option list list"
  qr_rowCount :: nat
  qr_success :: bool

text \<open>
  What the runtime, the network and the database answer during one run of
  \<^verbatim>\<open>executeQueryThroughTunnel\<close>: the first event of each socket; the outcome of
  \<^verbatim>\<open>executeQueryByType\<close> (the loopback bridge and the driver), a normalised result or
  the value it rejects with; what \<^verbatim>\<open>tls.createSecureContext\<close> throws for the certificate
  material of the options (\<open>None\<close> when it accepts it); and the \<^verbatim>\<open>RangeError\<close> that
  \<^verbatim>\<open>tls.connect\<close> throws for a port it refuses.
\<close>

record network =
  relay_answer :: relay_event
  gateway_answer :: gateway_event
  executeQueryByType :: "nat \<Rightarrow> credentials \<Rightarrow> string \<Rightarrow> thrown + query_result"
  createSecureContext :: "ConnectionOptions \<Rightarrow> thrown option"
  bad_port :: "number \<Rightarrow> thrown"

text \<open>The ports \<^verbatim>\<open>tls.connect\<close> accepts: the integers from 0 to 65535.\<close>

fun valid_port :: "number \<Rightarrow> bool" where
  "valid_port (Num n) = (0 \<le> n \<and> n \<le> 65535)"
| "valid_port NaN = False"
| "valid_port PosInfinity = False"
| "valid_port NegInfinity = False"

text \<open>
  What \<^verbatim>\<open>tls.connect(options)\<close> throws before any socket exists: it builds the secure
  context first, and when it is given no \<^verbatim>\<open>socket\<close> to run on it connects one of its own
  and checks the port.
\<close>

definition tls_connect_throws :: "network \<Rightarrow> ConnectionOptions \<Rightarrow> thrown option" where
  "tls_connect_throws net options =
     (case createSecureContext net options of
        Some error \<Rightarrow> Some error
      | None \<Rightarrow>
          (case socket options of
             Some underlying \<Rightarrow> None
           | None \<Rightarrow>
               (case port options of
                  None \<Rightarrow> None
                | Some p \<Rightarrow> if valid_port p then None else Some (bad_port net p))))"

text \<open>\<^verbatim>\<open>createRelayConnection\<close>: a throw in the executor of the promise (of
  \<^verbatim>\<open>relayHost.includes\<close>, of \<^verbatim>\<open>tls.connect\<close>) rejects the promise with the thrown
  value.\<close>

definition createRelayConnection ::
  "network \<Rightarrow> PostgresGatewayConnectionDetails \<Rightarrow> tunnel_state \<Rightarrow> (thrown + nat) \<times> tunnel_state" where
  "createRelayConnection net gatewayDetails st =
     (case relayTlsConfig gatewayDetails of
        Inl error \<Rightarrow> (Inl error, st)
      | Inr tlsConfig \<Rightarrow>
          (case tls_connect_throws net tlsConfig of
             Some error \<Rightarrow> (Inl error, st)
           | None \<Rightarrow>
               (case tls_connect st of
                  (sock, st1) \<Rightarrow>
                    (case relay_answer net of
                       RelayConnect authorized authorizationError \<Rightarrow>
                         if authorized then (Inr sock, st1)
                         else (Inl (Error (''Relay TLS authorization failed: '' @ authorizationError)), st1)
                     | RelayError msg \<Rightarrow> (Inl (Error (''Relay TLS connection error: '' @ msg)), st1)
                     | RelayTimeout \<Rightarrow> (Inl (Error ''Relay connection timeout after 10 seconds''), st1)))))"

definition createGatewayConnection ::
  "network \<Rightarrow> nat \<Rightarrow> PostgresGatewayConnectionDetails \<Rightarrow> tunnel_state
     \<Rightarrow> (thrown + nat) \<times> tunnel_state" where
  "createGatewayConnection net relaySock gatewayDetails st =
     (case gatewayTlsConfig relaySock gatewayDetails of
        Inl error \<Rightarrow> (Inl error, st)
      | Inr tlsConfig \<Rightarrow>
          (case tls_connect_throws net tlsConfig of
             Some error \<Rightarrow> (Inl error, st)
           | None \<Rightarrow>
               (case tls_connect st of
                  (sock, st1) \<Rightarrow>
                    (case gateway_answer net of
                       GatewaySecureConnect protocol authorizationError \<Rightarrow>
                         if protocol then (Inr sock, st1)
                         else (Inl (Error (''Gateway TLS handshake failed: '' @ authorizationError)), st1)
                     | GatewayError msg \<Rightarrow> (Inl (Error (''Gateway TLS connection error: '' @ msg)), st1)
                     | GatewayTimeout \<Rightarrow> (Inl (Error ''Gateway connection timeout after 10 seconds''), st1)))))"

text \<open>Lines 51 to 56 of \<^verbatim>\<open>executeQueryThroughTunnel\<close>: the handle is built and
  \<^verbatim>\<open>this.activeTunnels.set(sessionId, tunnel)\<close> stores it.\<close>

definition registerTunnel :: "string \<Rightarrow> nat \<Rightarrow> nat \<Rightarrow> tunnel_state \<Rightarrow> tunnel_state" where
  "registerTunnel sid relaySock gatewaySock st =
     st\<lparr>activeTunnels := (activeTunnels st)
            (sid \<mapsto> \<lparr>relaySocket = relaySock, gatewaySocket = gatewaySock, isActive = True\<rparr>)\<rparr>"

text \<open>The \<^verbatim>\<open>catch\<close> of \<^verbatim>\<open>PamPostgresTcpGatewayService.executeQueryThroughTunnel\<close>.\<close>

definition tcp_catch :: "string \<Rightarrow> thrown \<Rightarrow> tunnel_state \<Rightarrow> (thrown + query_result) \<times> tunnel_state" where
  "tcp_catch sid error st =
     (Inl (BadRequestError (message_or error ''Failed to execute query through TCP tunnel'')),
      closeTunnel sid st)"

definition tcp_executeQueryThroughTunnel ::
  "network \<Rightarrow> string \<Rightarrow> credentials \<Rightarrow> PostgresGatewayConnectionDetails \<Rightarrow> string \<Rightarrow> tunnel_state
     \<Rightarrow> (thrown + query_result) \<times> tunnel_state" where
  "tcp_executeQueryThroughTunnel net sid creds gatewayDetails sql st =
     (case createRelayConnection net gatewayDetails st of
        (Inl error, st1) \<Rightarrow> tcp_catch sid error st1
      | (Inr relaySock, st1) \<Rightarrow>
          (case createGatewayConnection net relaySock gatewayDetails st1 of
             (Inl error, st2) \<Rightarrow> tcp_catch sid error st2
           | (Inr gatewaySock, st2) \<Rightarrow>
               (let st3 = registerTunnel sid relaySock gatewaySock st2 in
                case executeQueryByType net gatewaySock creds sql of
                  Inl error \<Rightarrow> tcp_catch sid error st3
                | Inr result \<Rightarrow> (Inr result, closeTunnel sid st3))))"

subsection \<open>The session pipeline\<close>

text \<open>\<^verbatim>\<open>PamPostgresProxyService.executeQueryThroughTunnel\<close>\<close>

definition proxy_executeQueryThroughTunnel ::
  "network \<Rightarrow> credentials \<Rightarrow> connection_details \<Rightarrow> string \<Rightarrow> string \<Rightarrow> tunnel_state
     \<Rightarrow> (thrown + query_result) \<times> tunnel_state" where
  "proxy_executeQueryThroughTunnel net creds gatewayDetails sql sid st =
     tcp_executeQueryThroughTunnel net sid creds (tunnelDetails gatewayDetails sid) sql st"

text \<open>\<^verbatim>\<open>PamPostgresProxyService.executeQuery\<close>: the \<^verbatim>\<open>try\<close> block, then the
  \<^verbatim>\<open>catch\<close> that rethrows a \<^verbatim>\<open>BadRequestError\<close>. The \<^verbatim>\<open>params\<close> of the query are
  read and passed on, but no callee uses them.\<close>

definition executeQuery_try ::
  "collaborators \<Rightarrow> network \<Rightarrow> string \<Rightarrow> string \<Rightarrow> actor \<Rightarrow> tunnel_state
     \<Rightarrow> (thrown + query_result) \<times> tunnel_state" where
  "executeQuery_try deps net sid sql act st =
     (case validateSession deps sid of
        Inl error \<Rightarrow> (Inl error, st)
      | Inr sess \<Rightarrow>
     (case getResourceForSession deps sess of
        Inl error \<Rightarrow> (Inl error, st)
      | Inr res \<Rightarrow>
     (case getSessionCredentials deps sid act of
        Inl error \<Rightarrow> (Inl error, st)
      | Inr creds \<Rightarrow>
     (case proxy_getGatewayConnectionDetails deps sid (r_gatewayId res) of
        Inl error \<Rightarrow> (Inl error, st)
      | Inr None \<Rightarrow> (Inl (BadRequestError ''Failed to get gateway connection details''), st)
      | Inr (Some gatewayConnectionDetails) \<Rightarrow>
          proxy_executeQueryThroughTunnel net creds gatewayConnectionDetails sql sid st))))"

definition executeQuery ::
  "collaborators \<Rightarrow> network \<Rightarrow> string \<Rightarrow> string \<Rightarrow> actor \<Rightarrow> tunnel_state
     \<Rightarrow> (thrown + query_result) \<times> tunnel_state" where
  "executeQuery deps net sid sql act st =
     (case executeQuery_try deps net sid sql act st of
        (Inl error, st') \<Rightarrow>
          (Inl (BadRequestError (message_or error ''Failed to execute query via gateway'')), st')
      | (Inr result, st') \<Rightarrow> (Inr result, st'))"

subsection \<open>The direct connection pool\<close>

datatype resourceType = postgres | mysql

record PooledConnection =
  pc_sessionId :: string
  connection :: nat
  pc_resourceType :: resourceType
  createdAt :: date
  lastUsed :: date

text \<open>What the pool asks of a database driver: opening a connection, a statement on a
  connection (\<^verbatim>\<open>query\<close> of pg, \<^verbatim>\<open>execute\<close> of mysql2), and \<^verbatim>\<open>end()\<close>.\<close>

datatype driver_call = Connect resourceType credentials | Query nat string | End nat

text \<open>
  The state of a \<^verbatim>\<open>PAMSessionConnectionPool\<close>: the map \<^verbatim>\<open>connections\<close>, the name the
  next driver connection gets (a connection object is named by a number), and the calls
  made to the drivers so far, the latest first.
\<close>

record pool_state =
  connections :: "string \<rightharpoonup> PooledConnection"
  next_connection :: nat
  driver_calls :: "driver_call list"

text \<open>The answers of the drivers: \<open>None\<close> when the call succeeds, the thrown value
  otherwise.\<close>

record driver =
  connect_answer :: "resourceType \<Rightarrow> credentials \<Rightarrow> thrown option"
  query_answer :: "nat \<Rightarrow> string \<Rightarrow> thrown option"
  end_answer :: "nat \<Rightarrow> thrown option"

text \<open>In the pool's methods \<open>t\<close> is the reading of the clock during the call.\<close>

definition getConnection :: "date \<Rightarrow> string \<Rightarrow> pool_state \<Rightarrow> (thrown + nat) \<times> pool_state" where
  "getConnection t sid st =
     (case connections st sid of
        Some existing \<Rightarrow>
          (Inr (connection existing),
           st\<lparr>connections := (connections st)(sid \<mapsto> existing\<lparr>lastUsed := t\<rparr>)\<rparr>)
      | None \<Rightarrow> (Inl (Error ''No connection found for session. Call createConnection first.''), st))"

definition createConnection ::
  "driver \<Rightarrow> date \<Rightarrow> string \<Rightarrow> credentials \<Rightarrow> resourceType \<Rightarrow> pool_state
     \<Rightarrow> (thrown + nat) \<times> pool_state" where
  "createConnection drv t sid creds kind st =
     (case connections st sid of
        Some existing \<Rightarrow>
          (Inr (connection existing),
           st\<lparr>connections := (connections st)(sid \<mapsto> existing\<lparr>lastUsed := t\<rparr>)\<rparr>)
      | None \<Rightarrow>
          (let st1 = st\<lparr>driver_calls := Connect kind creds # driver_calls st\<rparr> in
           case connect_answer drv kind creds of
             Some error \<Rightarrow> (Inl error, st1)
           | None \<Rightarrow>
               (let conn = next_connection st1;
                    pooledConnection =
                      \<lparr>pc_sessionId = sid, connection = conn, pc_resourceType = kind,
                       createdAt = t, lastUsed = t\<rparr>
                in (Inr conn,
                    st1\<lparr>connections := (connections st1)(sid \<mapsto> pooledConnection),
                        next_connection := Suc conn\<rparr>))))"

definition releaseConnection :: "date \<Rightarrow> string \<Rightarrow> pool_state \<Rightarrow> pool_state" where
  "releaseConnection t sid st =
     (case connections st sid of
        Some conn \<Rightarrow> st\<lparr>connections := (connections st)(sid \<mapsto> conn\<lparr>lastUsed := t\<rparr>)\<rparr>
      | None \<Rightarrow> st)"

text \<open>\<^verbatim>\<open>closeConnection\<close>: \<^verbatim>\<open>end()\<close> stands in a \<^verbatim>\<open>try\<close> whose \<^verbatim>\<open>finally\<close> deletes
  the entry, so the entry goes also when \<^verbatim>\<open>end()\<close> throws, and the error goes on.\<close>

definition closeConnection :: "driver \<Rightarrow> string \<Rightarrow> pool_state \<Rightarrow> (thrown + unit) \<times> pool_state" where
  "closeConnection drv sid st =
     (case connections st sid of
        None \<Rightarrow> (Inr (), st)
      | Some pooled \<Rightarrow>
          (let st1 = st\<lparr>driver_calls := End (connection pooled) # driver_calls st\<rparr>;
               st2 = st1\<lparr>connections := (connections st1)(sid := None)\<rparr>
           in case end_answer drv (connection pooled) of
                Some error \<Rightarrow> (Inl error, st2)
              | None \<Rightarrow> (Inr (), st2)))"

definition healthCheck :: "driver \<Rightarrow> string \<Rightarrow> pool_state \<Rightarrow> (thrown + bool) \<times> pool_state" where
  "healthCheck drv sid st =
     (case connections st sid of
        None \<Rightarrow> (Inr False, st)
      | Some pooled \<Rightarrow>
          (let st1 = st\<lparr>driver_calls := Query (connection pooled) ''SELECT 1'' # driver_calls st\<rparr> in
           case query_answer drv (connection pooled) ''SELECT 1'' of
             None \<Rightarrow> (Inr True, st1)
           | Some error \<Rightarrow>
               (case closeConnection drv sid st1 of
                  (Inl error', st2) \<Rightarrow> (Inl error', st2)
                | (Inr u, st2) \<Rightarrow> (Inr False, st2))))"

subsection \<open>Concrete collaborators, networks and states\<close>

definition creds1 :: credentials where
  "creds1 = \<lparr>c_host = ''db.example.com'', c_port = 5432, c_database = ''testdb'',
             c_username = ''user'', c_password = ''pass'', c_sslEnabled = False,
             c_sslRejectUnauthorized = True, c_sslCertificate = None\<rparr>"

definition session1 :: "date option \<Rightarrow> session" where
  "session1 expires = \<lparr>s_id = ''session-1'', s_status = Active, s_accountId = ''acc-1'',
                       s_projectId = ''proj-1'', s_expiresAt = expires\<rparr>"

definition relay_certs :: certificates where
  "relay_certs = \<lparr>clientCertificate = Some ''R1'', clientPrivateKey = Some ''R2'',
                  serverCertificateChain = Some ''R3''\<rparr>"

definition gateway_certs :: certificates where
  "gateway_certs = \<lparr>clientCertificate = Some ''G1'', clientPrivateKey = Some ''G2'',
                    serverCertificateChain = Some ''G3''\<rparr>"

definition bundle1 :: connection_details where
  "bundle1 = \<lparr>cd_relayHost = Some ''relay.example.com:8443'', cd_relay = Some relay_certs,
              cd_gateway = Some gateway_certs\<rparr>"

text \<open>A bundle whose gateway part lacks the client certificate.\<close>

definition bundle_no_gateway_cert :: connection_details where
  "bundle_no_gateway_cert =
     \<lparr>cd_relayHost = Some ''relay.example.com:8443'', cd_relay = Some relay_certs,
      cd_gateway = Some (gateway_certs\<lparr>clientCertificate := None\<rparr>)\<rparr>"

text \<open>Collaborators that know the session \<^verbatim>\<open>session-1\<close> (with the given expiry), its
  account and its resource behind the gateway \<^verbatim>\<open>gw-1\<close>, at clock reading 1000; the
  gateway service answers \<open>bundle\<close>.\<close>

definition deps1 :: "date option \<Rightarrow> connection_details option \<Rightarrow> collaborators" where
  "deps1 expires bundle =
     \<lparr>pamSessionDAL_findById = (\<lambda>i. Inr (if i = ''session-1'' then Some (session1 expires) else None)),
      pamAccountDAL_findById =
        (\<lambda>i. Inr (if i = ''acc-1'' then Some \<lparr>a_id = ''acc-1'', a_resourceId = ''res-1''\<rparr> else None)),
      pamResourceDAL_findById =
        (\<lambda>i. Inr (if i = ''res-1'' then Some \<lparr>r_id = ''res-1'', r_gatewayId = Some ''gw-1''\<rparr> else None)),
      pamAccountService_getSessionCredentials = (\<lambda>i a. Inr creds1),
      gatewayV2Service_getPAMConnectionDetails = (\<lambda>rq. Inr bundle),
      now = 1000\<rparr>"

definition result1 :: query_result where
  "result1 = \<lparr>qr_fields = [(''?column?'', ''23'')], qr_rows = [[Some ''1'']], qr_rowCount = 1,
              qr_success = True\<rparr>"

text \<open>A runtime and a network on which the certificate material is accepted, both
  handshakes succeed and the query returns one row. (The text of the \<^verbatim>\<open>RangeError\<close> for
  a refused port is cut short: the runtime goes on to name the value it received.)\<close>

definition net1 :: network where
  "net1 = \<lparr>relay_answer = RelayConnect True ''undefined'',
           gateway_answer = GatewaySecureConnect True ''undefined'',
           executeQueryByType = (\<lambda>sock creds sql. Inr result1),
           createSecureContext = (\<lambda>options. None),
           bad_port = (\<lambda>p. Error ''Port should be >= 0 and < 65536.'')\<rparr>"

definition no_tunnels :: tunnel_state where
  "no_tunnels = \<lparr>activeTunnels = Map.empty, sockets = Map.empty, next_socket = 0, destroy_calls = []\<rparr>"

text \<open>A registry that holds a handle for \<^verbatim>\<open>session-1\<close> whose two sockets are open.\<close>

definition one_tunnel :: tunnel_state where
  "one_tunnel =
     \<lparr>activeTunnels = [''session-1'' \<mapsto> \<lparr>relaySocket = 0, gatewaySocket = 1, isActive = True\<rparr>],
      sockets = [0 \<mapsto> False, 1 \<mapsto> False], next_socket = 2, destroy_calls = []\<rparr>"

definition empty_pool :: pool_state where
  "empty_pool = \<lparr>connections = Map.empty, next_connection = 0, driver_calls = []\<rparr>"

text \<open>A driver on which every call succeeds, and one whose statements fail.\<close>

definition driver_ok :: driver where
  "driver_ok = \<lparr>connect_answer = (\<lambda>k c. None), query_answer = (\<lambda>c q. None), end_answer = (\<lambda>c. None)\<rparr>"

definition driver_down :: driver where
  "driver_down = \<lparr>connect_answer = (\<lambda>k c. None),
                  query_answer = (\<lambda>c q. Some (Error ''Connection terminated unexpectedly'')),
                  end_answer = (\<lambda>c. None)\<rparr>"

text \<open>The pool after \<^verbatim>\<open>createConnection("session-1", creds1, "postgres")\<close> at clock
  reading 5 on the empty pool.\<close>

definition pool_one :: pool_state where
  "pool_one =
     \<lparr>connections = [''session-1'' \<mapsto> \<lparr>pc_sessionId = ''session-1'', connection = 0,
                        pc_resourceType = postgres, createdAt = 5, lastUsed = 5\<rparr>],
      next_connection = 1, driver_calls = [Connect postgres creds1]\<rparr>"


subsection \<open>Decimal notation\<close>


lemmas run_defs =
  executeQuery_def executeQuery_try_def validateSession_def getResourceForSession_def
  getSessionCredentials_def proxy_getGatewayConnectionDetails_def proxy_executeQueryThroughTunnel_def
  tcp_executeQueryThroughTunnel_def tcp_catch_def createRelayConnection_def createGatewayConnection_def
  relayTlsConfig_def gatewayTlsConfig_def tls_connect_def registerTunnel_def closeTunnel_def
  tls_connect_throws_def destroy_socket_def tunnelDetails_def parseRelayHost_def parseInt_def
  to_double_def shift_count.simps is_digit_def is_whitespace_def
  deps1_def session1_def creds1_def bundle1_def bundle_no_gateway_cert_def relay_certs_def
  gateway_certs_def net1_def no_tunnels_def one_tunnel_def result1_def Let_def

section \<open>The tunnel registry\<close>

lemma destroy_socket_activeTunnels [simp]:
  "activeTunnels (destroy_socket k st) = activeTunnels st"
  by (simp add: destroy_socket_def)

lemma destroy_socket_other: "k \<noteq> j \<Longrightarrow> sockets (destroy_socket j st) k = sockets st k"
  by (simp add: destroy_socket_def)

lemma closeTunnel_absent: "activeTunnels st sid = None \<Longrightarrow> closeTunnel sid st = st"
  by (simp add: closeTunnel_def)

lemma closeTunnel_removes [simp]: "activeTunnels (closeTunnel sid st) sid = None"
  by (simp add: closeTunnel_def Let_def split: option.splits)

lemma closeTunnel_sockets_other:
  "activeTunnels st sid = Some t \<Longrightarrow> k \<noteq> relaySocket t \<Longrightarrow> k \<noteq> gatewaySocket t \<Longrightarrow>
   sockets (closeTunnel sid st) k = sockets st k"
  by (simp add: closeTunnel_def Let_def destroy_socket_other)

text \<open>
  C8. \<^verbatim>\<open>closeTunnel\<close> is idempotent: for every session id and every state of the registry
  and of the sockets, closing twice gives the state that closing once gives (the same
  registry, the same \<^verbatim>\<open>destroyed\<close> flags and the same calls of \<^verbatim>\<open>destroy()\<close>), and
  closing a session id that has no entry changes nothing.
\<close>

theorem closeTunnel_idempotent:
  "closeTunnel sid (closeTunnel sid st) = closeTunnel sid st
   \<and> (activeTunnels st sid = None \<longrightarrow> closeTunnel sid st = st)"
  by (simp add: closeTunnel_absent)

theorem closeTunnel_idempotent_witness:
  "activeTunnels no_tunnels ''session-1'' = None
   \<and> closeTunnel ''session-1'' no_tunnels = no_tunnels
   \<and> closeTunnel ''session-1'' (closeTunnel ''session-1'' one_tunnel) = closeTunnel ''session-1'' one_tunnel
   \<and> destroy_calls (closeTunnel ''session-1'' (closeTunnel ''session-1'' one_tunnel)) = [0, 1]"
proof -
  have a: "activeTunnels no_tunnels ''session-1'' = None" by (simp add: no_tunnels_def)
  have b: "destroy_calls (closeTunnel ''session-1'' one_tunnel) = [0, 1]"
    by (simp add: closeTunnel_def one_tunnel_def destroy_socket_def Let_def)
  show ?thesis
    using closeTunnel_idempotent [of "''session-1''" no_tunnels]
      closeTunnel_idempotent [of "''session-1''" one_tunnel] a b by simp
qed

subsection \<open>Registration\<close>

lemma createRelayConnection_success:
  "createRelayConnection net d st = (Inr r, st1) \<Longrightarrow>
   r = next_socket st \<and> st1 = snd (tls_connect st)"
  by (auto simp: createRelayConnection_def tls_connect_def
      split: sum.splits option.splits relay_event.splits if_splits)

lemma createGatewayConnection_success:
  "createGatewayConnection net r d st = (Inr g, st1) \<Longrightarrow>
   g = next_socket st \<and> st1 = snd (tls_connect st)"
  by (auto simp: createGatewayConnection_def tls_connect_def
      split: sum.splits option.splits gateway_event.splits if_splits)

text \<open>A run that returns a result has opened two sockets, registered them and closed
  the handle it registered.\<close>

lemma tcp_success_run:
  assumes "fst (tcp_executeQueryThroughTunnel net sid creds d sql st) = Inr res"
  shows "snd (tcp_executeQueryThroughTunnel net sid creds d sql st)
           = closeTunnel sid (registerTunnel sid (next_socket st) (Suc (next_socket st))
               (snd (tls_connect (snd (tls_connect st)))))"
proof -
  obtain a st1 where r: "createRelayConnection net d st = (a, st1)"
    by (cases "createRelayConnection net d st")
  show ?thesis
  proof (cases a)
    case (Inl e)
    with r assms show ?thesis
      by (simp add: tcp_executeQueryThroughTunnel_def tcp_catch_def)
  next
    case (Inr relaySock)
    with r have r': "relaySock = next_socket st" "st1 = snd (tls_connect st)"
      using createRelayConnection_success by blast+
    obtain b st2 where g: "createGatewayConnection net relaySock d st1 = (b, st2)"
      by (cases "createGatewayConnection net relaySock d st1")
    show ?thesis
    proof (cases b)
      case (Inl e)
      with r Inr g assms show ?thesis
        by (simp add: tcp_executeQueryThroughTunnel_def tcp_catch_def)
    next
      case gw: (Inr gatewaySock)
      with g have g': "gatewaySock = next_socket st1" "st2 = snd (tls_connect st1)"
        using createGatewayConnection_success by blast+
      have n: "next_socket st1 = Suc (next_socket st)"
        using r' by (simp add: tls_connect_def)
      show ?thesis
        using r Inr g gw assms r' g' n
        by (cases "executeQueryByType net (Suc (next_socket st)) creds sql")
           (simp_all add: tcp_executeQueryThroughTunnel_def tcp_catch_def Let_def)
    qed
  qed
qed

text \<open>
  C3, as the code has it. The registry is a map, so it holds at most one handle per
  session id. Registering a handle for a session id that already has one replaces the
  entry and nothing else: no socket changes its \<^verbatim>\<open>destroyed\<close> flag and \<^verbatim>\<open>destroy()\<close> is
  not called, so the streams of the prior handle are left as they were. In a run of
  \<^verbatim>\<open>executeQueryThroughTunnel\<close> that returns a result, every socket opened before the
  run (those of a prior handle among them) has the flag it had before.
\<close>

theorem registerTunnel_replaces_without_teardown:
  "activeTunnels (registerTunnel sid r g st)
     = (activeTunnels st)(sid \<mapsto> \<lparr>relaySocket = r, gatewaySocket = g, isActive = True\<rparr>)
   \<and> sockets (registerTunnel sid r g st) = sockets st
   \<and> destroy_calls (registerTunnel sid r g st) = destroy_calls st
   \<and> (\<forall>res k. fst (tcp_executeQueryThroughTunnel net sid creds d sql st) = Inr res \<and> k < next_socket st \<longrightarrow>
        sockets (snd (tcp_executeQueryThroughTunnel net sid creds d sql st)) k = sockets st k)"
proof (intro conjI allI impI)
  fix res k
  assume a: "fst (tcp_executeQueryThroughTunnel net sid creds d sql st) = Inr res \<and> k < next_socket st"
  let ?st2 = "snd (tls_connect (snd (tls_connect st)))"
  let ?st3 = "registerTunnel sid (next_socket st) (Suc (next_socket st)) ?st2"
  have t: "activeTunnels ?st3 sid
      = Some \<lparr>relaySocket = next_socket st, gatewaySocket = Suc (next_socket st), isActive = True\<rparr>"
    by (simp add: registerTunnel_def)
  have "sockets (closeTunnel sid ?st3) k = sockets ?st3 k"
    using a by (intro closeTunnel_sockets_other [OF t]) simp_all
  also have "\<dots> = sockets st k"
    using a by (simp add: registerTunnel_def tls_connect_def)
  finally show "sockets (snd (tcp_executeQueryThroughTunnel net sid creds d sql st)) k = sockets st k"
    using a tcp_success_run by simp
qed (simp_all add: registerTunnel_def)

theorem registerTunnel_replaces_without_teardown_witness:
  "fst (tcp_executeQueryThroughTunnel net1 ''session-1'' creds1 (tunnelDetails bundle1 ''session-1'')
          ''SELECT 1'' one_tunnel) = Inr result1
   \<and> 0 < next_socket one_tunnel
   \<and> sockets one_tunnel 0 = Some False
   \<and> sockets (snd (tcp_executeQueryThroughTunnel net1 ''session-1'' creds1
                     (tunnelDetails bundle1 ''session-1'') ''SELECT 1'' one_tunnel)) 0 = Some False"
proof -
  have a: "fst (tcp_executeQueryThroughTunnel net1 ''session-1'' creds1 (tunnelDetails bundle1 ''session-1'')
          ''SELECT 1'' one_tunnel) = Inr result1"
    by (simp add: run_defs)
  have b: "0 < next_socket one_tunnel" "sockets one_tunnel 0 = Some False"
    by (simp_all add: one_tunnel_def)
  show ?thesis
    using registerTunnel_replaces_without_teardown
            [of "''session-1''" 0 0 one_tunnel net1 creds1 "tunnelDetails bundle1 ''session-1''" "''SELECT 1''"]
          a b
    by simp
qed

text \<open>
  C3, as the claim states it, fails: the registry holds a handle for \<^verbatim>\<open>session-1\<close>
  with the open sockets 0 and 1; registering a second handle for \<^verbatim>\<open>session-1\<close> leaves
  both open and calls no \<^verbatim>\<open>destroy()\<close>, and after a whole successful run only the new
  sockets 2 and 3 are destroyed.
\<close>

theorem register_leaves_prior_sockets_open:
  "activeTunnels one_tunnel ''session-1'' = Some \<lparr>relaySocket = 0, gatewaySocket = 1, isActive = True\<rparr>
   \<and> sockets (registerTunnel ''session-1'' 2 3 one_tunnel) 0 = Some False
   \<and> sockets (registerTunnel ''session-1'' 2 3 one_tunnel) 1 = Some False
   \<and> destroy_calls (registerTunnel ''session-1'' 2 3 one_tunnel) = []
   \<and> tcp_executeQueryThroughTunnel net1 ''session-1'' creds1 (tunnelDetails bundle1 ''session-1'')
        ''SELECT 1'' one_tunnel
       = (Inr result1,
          \<lparr>activeTunnels = Map.empty, sockets = [0 \<mapsto> False, 1 \<mapsto> False, 2 \<mapsto> True, 3 \<mapsto> True],
           next_socket = 4, destroy_calls = [2, 3]\<rparr>)"
  by (simp add: run_defs fun_eq_iff)

subsection \<open>Teardown at the end of a run\<close>

lemma tcp_catch_removes [simp]: "activeTunnels (snd (tcp_catch sid error st)) sid = None"
  by (simp add: tcp_catch_def)

text \<open>Every run of \<^verbatim>\<open>executeQueryThroughTunnel\<close> ends with no entry for its session id.\<close>

lemma tcp_executeQueryThroughTunnel_deregisters:
  "activeTunnels (snd (tcp_executeQueryThroughTunnel net sid creds d sql st)) sid = None"
  by (simp add: tcp_executeQueryThroughTunnel_def Let_def split: prod.splits sum.splits)

text \<open>A run that returns a result has destroyed the two sockets it opened.\<close>

lemma tcp_success_destroys_both:
  assumes "fst (tcp_executeQueryThroughTunnel net sid creds d sql st) = Inr res"
  shows "sockets (snd (tcp_executeQueryThroughTunnel net sid creds d sql st)) (next_socket st) = Some True
       \<and> sockets (snd (tcp_executeQueryThroughTunnel net sid creds d sql st)) (Suc (next_socket st)) = Some True"
  using tcp_success_run [OF assms]
  by (simp add: closeTunnel_def registerTunnel_def tls_connect_def destroy_socket_def Let_def)

text \<open>When the relay leg is up and a gateway certificate field is missing, the handle
  has not been registered yet, so the \<^verbatim>\<open>closeTunnel\<close> of the \<^verbatim>\<open>catch\<close> finds no entry
  and the relay socket stays open.\<close>

lemma relay_socket_stays_open:
  assumes "createRelayConnection net d st = (Inr r, st1)"
    and "falsy (gatewayClientCertificate d) \<or> falsy (gatewayClientPrivateKey d)
         \<or> falsy (gatewayServerCertificateChain d)"
    and "activeTunnels st sid = None"
  shows "tcp_executeQueryThroughTunnel net sid creds d sql st
           = (Inl (BadRequestError ''Missing gateway TLS certificates or keys''), st1)
         \<and> sockets st1 r = Some False"
proof -
  have g: "createGatewayConnection net r d st1
             = (Inl (Error ''Missing gateway TLS certificates or keys''), st1)"
    using assms(2) by (auto simp: createGatewayConnection_def gatewayTlsConfig_def)
  have s: "r = next_socket st" "st1 = snd (tls_connect st)"
    using createRelayConnection_success [OF assms(1)] by simp_all
  then have "activeTunnels st1 sid = None" "sockets st1 r = Some False"
    using assms(3) by (simp_all add: tls_connect_def)
  then show ?thesis
    using assms(1) g
    by (simp add: tcp_executeQueryThroughTunnel_def tcp_catch_def closeTunnel_absent)
qed

text \<open>
  C1, at a concrete run. The session is valid, the relay handshake succeeds, and the
  bundle lacks \<^verbatim>\<open>gateway.clientCertificate\<close>. \<^verbatim>\<open>executeQuery\<close> fails with the message
  "Missing gateway TLS certificates or keys"; at that moment the registry has no entry
  for the session, but the relay socket (socket 0) opened by this run is not destroyed
  and \<^verbatim>\<open>destroy()\<close> has not been called.
\<close>

theorem missing_gateway_certificate_leaves_relay_open:
  "executeQuery (deps1 None (Some bundle_no_gateway_cert)) net1 ''session-1'' ''SELECT 1'' ''actor-1'' no_tunnels
     = (Inl (BadRequestError ''Missing gateway TLS certificates or keys''),
        \<lparr>activeTunnels = Map.empty, sockets = [0 \<mapsto> False], next_socket = 1, destroy_calls = []\<rparr>)"
  by (simp add: run_defs)

section \<open>The relay host and the flat connection details\<close>

















text \<open>
  C6. The flattening is a projection: for every nested bundle \<open>B\<close> and session id, the
  flat record built by \<^verbatim>\<open>PamPostgresProxyService.executeQueryThroughTunnel\<close> has
  \<^verbatim>\<open>relayHost = B.relayHost\<close>, each of the three relay fields equal to the field of
  \<^verbatim>\<open>B.relay?.\<close> and each of the three gateway fields equal to the field of
  \<^verbatim>\<open>B.gateway?.\<close>, and the session id. A missing \<^verbatim>\<open>relay\<close> or \<^verbatim>\<open>gateway\<close> object gives
  absent flat fields, a present one hands its fields over as they are (absent ones stay
  absent). \<^verbatim>\<open>PamPostgresTcpGatewayService.getGatewayConnectionDetails\<close> returns the same
  record for a bundle \<open>B\<close> that the gateway service returns.
\<close>

theorem tunnelDetails_projection:
  "relayHost (tunnelDetails B sid) = cd_relayHost B
   \<and> relayClientCertificate (tunnelDetails B sid) = opt_chain (cd_relay B) clientCertificate
   \<and> relayClientPrivateKey (tunnelDetails B sid) = opt_chain (cd_relay B) clientPrivateKey
   \<and> relayServerCertificateChain (tunnelDetails B sid) = opt_chain (cd_relay B) serverCertificateChain
   \<and> gatewayClientCertificate (tunnelDetails B sid) = opt_chain (cd_gateway B) clientCertificate
   \<and> gatewayClientPrivateKey (tunnelDetails B sid) = opt_chain (cd_gateway B) clientPrivateKey
   \<and> gatewayServerCertificateChain (tunnelDetails B sid) = opt_chain (cd_gateway B) serverCertificateChain
   \<and> sessionId (tunnelDetails B sid) = sid
   \<and> (cd_relay B = None \<longrightarrow>
        relayClientCertificate (tunnelDetails B sid) = None
        \<and> relayClientPrivateKey (tunnelDetails B sid) = None
        \<and> relayServerCertificateChain (tunnelDetails B sid) = None)
   \<and> (cd_gateway B = None \<longrightarrow>
        gatewayClientCertificate (tunnelDetails B sid) = None
        \<and> gatewayClientPrivateKey (tunnelDetails B sid) = None
        \<and> gatewayServerCertificateChain (tunnelDetails B sid) = None)
   \<and> (\<forall>r. cd_relay B = Some r \<longrightarrow>
        relayClientCertificate (tunnelDetails B sid) = clientCertificate r
        \<and> relayClientPrivateKey (tunnelDetails B sid) = clientPrivateKey r
        \<and> relayServerCertificateChain (tunnelDetails B sid) = serverCertificateChain r)
   \<and> (\<forall>g. cd_gateway B = Some g \<longrightarrow>
        gatewayClientCertificate (tunnelDetails B sid) = clientCertificate g
        \<and> gatewayClientPrivateKey (tunnelDetails B sid) = clientPrivateKey g
        \<and> gatewayServerCertificateChain (tunnelDetails B sid) = serverCertificateChain g)
   \<and> tcp_getGatewayConnectionDetails (\<lambda>rq. Inr (Some B)) sid gid = Inr (tunnelDetails B sid)"
  by (simp add: tunnelDetails_def tcp_getGatewayConnectionDetails_def)

theorem tunnelDetails_projection_witness:
  "tunnelDetails bundle1 ''session-1'' =
     \<lparr>relayHost = Some ''relay.example.com:8443'',
      relayClientCertificate = Some ''R1'', relayClientPrivateKey = Some ''R2'',
      relayServerCertificateChain = Some ''R3'',
      gatewayClientCertificate = Some ''G1'', gatewayClientPrivateKey = Some ''G2'',
      gatewayServerCertificateChain = Some ''G3'', sessionId = ''session-1''\<rparr>
   \<and> cd_relay (bundle1\<lparr>cd_relay := None\<rparr>) = None
   \<and> relayClientCertificate (tunnelDetails (bundle1\<lparr>cd_relay := None\<rparr>) ''session-1'') = None
   \<and> gatewayClientCertificate (tunnelDetails bundle_no_gateway_cert ''session-1'') = None
   \<and> gatewayClientPrivateKey (tunnelDetails bundle_no_gateway_cert ''session-1'') = Some ''G2''"
proof -
  have a: "cd_relay (bundle1\<lparr>cd_relay := None\<rparr>) = None" by simp
  have b: "cd_relay bundle1 = Some relay_certs" "cd_gateway bundle1 = Some gateway_certs"
    by (simp_all add: bundle1_def)
  have c: "cd_gateway bundle_no_gateway_cert = Some (gateway_certs\<lparr>clientCertificate := None\<rparr>)"
    by (simp add: bundle_no_gateway_cert_def)
  have d: "tunnelDetails bundle1 ''session-1'' =
     \<lparr>relayHost = Some ''relay.example.com:8443'',
      relayClientCertificate = Some ''R1'', relayClientPrivateKey = Some ''R2'',
      relayServerCertificateChain = Some ''R3'',
      gatewayClientCertificate = Some ''G1'', gatewayClientPrivateKey = Some ''G2'',
      gatewayServerCertificateChain = Some ''G3'', sessionId = ''session-1''\<rparr>"
    using tunnelDetails_projection [of bundle1 "''session-1''"] b
    by (simp add: bundle1_def relay_certs_def gateway_certs_def)
  show ?thesis
    using tunnelDetails_projection [of "bundle1\<lparr>cd_relay := None\<rparr>" "''session-1''"]
      tunnelDetails_projection [of bundle_no_gateway_cert "''session-1''"] a c d
    by (simp add: gateway_certs_def)
qed

section \<open>The session pipeline\<close>

text \<open>
  C5. For every session record that is found and whose status is not \<open>Ended\<close>:
  \<^verbatim>\<open>validateSession\<close> rejects it with "Session has expired" exactly when \<^verbatim>\<open>expiresAt\<close> is
  present and at or before the clock reading, it returns the record exactly when
  \<^verbatim>\<open>expiresAt\<close> is absent or strictly after the clock reading, and a record whose
  \<^verbatim>\<open>expiresAt\<close> equals the clock reading is expired.
\<close>

theorem validateSession_expiry_strict:
  assumes "pamSessionDAL_findById deps sid = Inr (Some s)" and "s_status s \<noteq> Ended"
  shows "((validateSession deps sid = Inl (BadRequestError ''Session has expired''))
            = (\<exists>e. s_expiresAt s = Some e \<and> e \<le> now deps))
       \<and> ((validateSession deps sid = Inr s)
            = (s_expiresAt s = None \<or> (\<exists>e. s_expiresAt s = Some e \<and> now deps < e)))
       \<and> (s_expiresAt s = Some (now deps)
            \<longrightarrow> validateSession deps sid = Inl (BadRequestError ''Session has expired''))"
  using assms by (cases "s_expiresAt s") (auto simp: validateSession_def)

theorem validateSession_expiry_strict_witness:
  "pamSessionDAL_findById (deps1 (Some 1000) None) ''session-1'' = Inr (Some (session1 (Some 1000)))
   \<and> s_status (session1 (Some 1000)) \<noteq> Ended
   \<and> s_expiresAt (session1 (Some 1000)) = Some (now (deps1 (Some 1000) None))
   \<and> validateSession (deps1 (Some 1000) None) ''session-1'' = Inl (BadRequestError ''Session has expired'')
   \<and> validateSession (deps1 (Some 1001) None) ''session-1'' = Inr (session1 (Some 1001))"
proof -
  have a: "pamSessionDAL_findById (deps1 (Some 1000) None) ''session-1'' = Inr (Some (session1 (Some 1000)))"
    by (simp add: deps1_def)
  have b: "s_status (session1 (Some 1000)) \<noteq> Ended" by (simp add: session1_def)
  have c: "s_expiresAt (session1 (Some 1000)) = Some (now (deps1 (Some 1000) None))"
    by (simp add: session1_def deps1_def)
  have a': "pamSessionDAL_findById (deps1 (Some 1001) None) ''session-1'' = Inr (Some (session1 (Some 1001)))"
    by (simp add: deps1_def)
  have b': "s_status (session1 (Some 1001)) \<noteq> Ended" by (simp add: session1_def)
  have d: "validateSession (deps1 (Some 1001) None) ''session-1'' = Inr (session1 (Some 1001))"
    using validateSession_expiry_strict [OF a' b'] by (simp add: session1_def deps1_def)
  show ?thesis
    using validateSession_expiry_strict [OF a b] a b c d by simp
qed

lemma executeQuery_failure_kind:
  "fst (executeQuery deps net sid sql act st) = Inl e \<Longrightarrow> \<exists>m. e = BadRequestError m"
  by (auto simp: executeQuery_def split: prod.splits sum.splits)

lemma executeQuery_resolver_failure:
  "validateSession deps sid = Inl e \<Longrightarrow>
   executeQuery deps net sid sql act st
     = (Inl (BadRequestError (message_or e ''Failed to execute query via gateway'')), st)"
  by (simp add: executeQuery_def executeQuery_try_def)

lemma executeQuery_resource_failure:
  "validateSession deps sid = Inr s \<Longrightarrow> getResourceForSession deps s = Inl e \<Longrightarrow>
   executeQuery deps net sid sql act st
     = (Inl (BadRequestError (message_or e ''Failed to execute query via gateway'')), st)"
  by (simp add: executeQuery_def executeQuery_try_def)

text \<open>
  C2, as the code has it. The \<^verbatim>\<open>catch\<close> of \<^verbatim>\<open>executeQuery\<close> covers the resolver too:
  every failure of \<^verbatim>\<open>executeQuery\<close> is a \<^verbatim>\<open>BadRequestError\<close> that keeps the message only.
  For a session id whose record is absent it is the \<^verbatim>\<open>BadRequestError\<close> with the message
  "Session with ID '...' not found"; for a missing account, with "Account not found";
  for a missing resource, with "Resource not found". The tunnel state is untouched in
  the three cases.
\<close>

theorem executeQuery_wraps_every_error:
  "(\<forall>e. fst (executeQuery deps net sid sql act st) = Inl e \<longrightarrow> (\<exists>m. e = BadRequestError m))
   \<and> (pamSessionDAL_findById deps sid = Inr None \<longrightarrow>
        executeQuery deps net sid sql act st
          = (Inl (BadRequestError (''Session with ID '' @ [CHR 0x27] @ sid @ [CHR 0x27] @ '' not found'')), st))
   \<and> (\<forall>s. validateSession deps sid = Inr s \<and> pamAccountDAL_findById deps (s_accountId s) = Inr None \<longrightarrow>
        executeQuery deps net sid sql act st = (Inl (BadRequestError ''Account not found''), st))
   \<and> (\<forall>s a. validateSession deps sid = Inr s \<and> pamAccountDAL_findById deps (s_accountId s) = Inr (Some a)
          \<and> pamResourceDAL_findById deps (a_resourceId a) = Inr None \<longrightarrow>
        executeQuery deps net sid sql act st = (Inl (BadRequestError ''Resource not found''), st))"
proof (intro conjI allI impI)
  fix e assume "fst (executeQuery deps net sid sql act st) = Inl e"
  then show "\<exists>m. e = BadRequestError m" by (rule executeQuery_failure_kind)
next
  assume "pamSessionDAL_findById deps sid = Inr None"
  then have "validateSession deps sid
      = Inl (NotFoundError (''Session with ID '' @ [CHR 0x27] @ sid @ [CHR 0x27] @ '' not found''))"
    by (simp add: validateSession_def)
  then show "executeQuery deps net sid sql act st
          = (Inl (BadRequestError (''Session with ID '' @ [CHR 0x27] @ sid @ [CHR 0x27] @ '' not found'')), st)"
    by (simp add: executeQuery_resolver_failure)
next
  fix s assume a: "validateSession deps sid = Inr s \<and> pamAccountDAL_findById deps (s_accountId s) = Inr None"
  then have "getResourceForSession deps s = Inl (NotFoundError ''Account not found'')"
    by (simp add: getResourceForSession_def)
  with a show "executeQuery deps net sid sql act st = (Inl (BadRequestError ''Account not found''), st)"
    by (simp add: executeQuery_resource_failure)
next
  fix s a
  assume a: "validateSession deps sid = Inr s \<and> pamAccountDAL_findById deps (s_accountId s) = Inr (Some a)
          \<and> pamResourceDAL_findById deps (a_resourceId a) = Inr None"
  then have "getResourceForSession deps s = Inl (NotFoundError ''Resource not found'')"
    by (simp add: getResourceForSession_def)
  with a show "executeQuery deps net sid sql act st = (Inl (BadRequestError ''Resource not found''), st)"
    by (simp add: executeQuery_resource_failure)
qed

theorem executeQuery_wraps_every_error_witness:
  "pamSessionDAL_findById (deps1 None (Some bundle1)) ''session-2'' = Inr None
   \<and> executeQuery (deps1 None (Some bundle1)) net1 ''session-2'' ''SELECT 1'' ''actor-1'' no_tunnels
       = (Inl (BadRequestError ''Session with ID 'session-2' not found''), no_tunnels)"
proof -
  have a: "pamSessionDAL_findById (deps1 None (Some bundle1)) ''session-2'' = Inr None"
    by (simp add: deps1_def)
  show ?thesis
    using executeQuery_wraps_every_error
            [of "deps1 None (Some bundle1)" net1 "''session-2''" "''SELECT 1''" "''actor-1''" no_tunnels] a
    by simp
qed

text \<open>
  C2, as the claim states it, fails: the record of \<^verbatim>\<open>session-2\<close> is absent, the resolver
  throws a \<^verbatim>\<open>NotFoundError\<close>, and \<^verbatim>\<open>executeQuery\<close> fails with a \<^verbatim>\<open>BadRequestError\<close> of the
  same message, not with the \<^verbatim>\<open>NotFoundError\<close>.
\<close>

theorem absent_session_is_BadRequest:
  "validateSession (deps1 None (Some bundle1)) ''session-2''
     = Inl (NotFoundError ''Session with ID 'session-2' not found'')
   \<and> executeQuery (deps1 None (Some bundle1)) net1 ''session-2'' ''SELECT 1'' ''actor-1'' no_tunnels
     = (Inl (BadRequestError ''Session with ID 'session-2' not found''), no_tunnels)
   \<and> fst (executeQuery (deps1 None (Some bundle1)) net1 ''session-2'' ''SELECT 1'' ''actor-1'' no_tunnels)
     \<noteq> Inl (NotFoundError ''Session with ID 'session-2' not found'')"
  by (simp add: run_defs)

text \<open>
  C4, as the code has it. When the session is valid, its resource has a gateway, the
  credentials are fetched and the gateway service returns no bundle, \<^verbatim>\<open>executeQuery\<close>
  fails with the \<^verbatim>\<open>BadRequestError\<close> whose message is
  "Failed to get gateway connection details for TCP tunnel", and the tunnel state is
  untouched.
\<close>

theorem executeQuery_null_bundle:
  assumes "validateSession deps sid = Inr s"
    and "getResourceForSession deps s = Inr r"
    and "getSessionCredentials deps sid act = Inr c"
    and "gatewayV2Service_getPAMConnectionDetails deps
           \<lparr>rq_sessionId = sid, rq_gatewayId = r_gatewayId r, rq_host = ''localhost'',
            rq_port = 8443, rq_actorId = ''system'', rq_actorName = ''PAM Gateway Proxy''\<rparr> = Inr None"
  shows "executeQuery deps net sid sql act st
           = (Inl (BadRequestError ''Failed to get gateway connection details for TCP tunnel''), st)"
  using assms
  by (simp add: executeQuery_def executeQuery_try_def proxy_getGatewayConnectionDetails_def)

theorem executeQuery_null_bundle_witness:
  "validateSession (deps1 None None) ''session-1'' = Inr (session1 None)
   \<and> getResourceForSession (deps1 None None) (session1 None)
       = Inr \<lparr>r_id = ''res-1'', r_gatewayId = Some ''gw-1''\<rparr>
   \<and> getSessionCredentials (deps1 None None) ''session-1'' ''actor-1'' = Inr creds1
   \<and> executeQuery (deps1 None None) net1 ''session-1'' ''SELECT 1'' ''actor-1'' no_tunnels
       = (Inl (BadRequestError ''Failed to get gateway connection details for TCP tunnel''), no_tunnels)"
proof -
  have a: "validateSession (deps1 None None) ''session-1'' = Inr (session1 None)"
    by (simp add: validateSession_def deps1_def session1_def)
  have b: "getResourceForSession (deps1 None None) (session1 None)
       = Inr \<lparr>r_id = ''res-1'', r_gatewayId = Some ''gw-1''\<rparr>"
    by (simp add: getResourceForSession_def deps1_def session1_def)
  have c: "getSessionCredentials (deps1 None None) ''session-1'' ''actor-1'' = Inr creds1"
    by (simp add: getSessionCredentials_def deps1_def)
  have d: "gatewayV2Service_getPAMConnectionDetails (deps1 None None)
           \<lparr>rq_sessionId = ''session-1'',
            rq_gatewayId = r_gatewayId \<lparr>r_id = ''res-1'', r_gatewayId = Some ''gw-1''\<rparr>,
            rq_host = ''localhost'', rq_port = 8443, rq_actorId = ''system'',
            rq_actorName = ''PAM Gateway Proxy''\<rparr> = Inr None"
    by (simp add: deps1_def)
  show ?thesis
    using executeQuery_null_bundle [OF a b c d, of net1 "''SELECT 1''" no_tunnels] a b c by simp
qed

text \<open>
  C4, as the claim states it, fails: the gateway service returns no bundle for the valid
  session \<^verbatim>\<open>session-1\<close>, and the message of the \<^verbatim>\<open>BadRequestError\<close> is
  "Failed to get gateway connection details for TCP tunnel", not
  "Failed to get gateway connection details".
\<close>

theorem null_bundle_message:
  "validateSession (deps1 None None) ''session-1'' = Inr (session1 None)
   \<and> gatewayV2Service_getPAMConnectionDetails (deps1 None None)
        \<lparr>rq_sessionId = ''session-1'', rq_gatewayId = Some ''gw-1'', rq_host = ''localhost'',
         rq_port = 8443, rq_actorId = ''system'', rq_actorName = ''PAM Gateway Proxy''\<rparr> = Inr None
   \<and> executeQuery (deps1 None None) net1 ''session-1'' ''SELECT 1'' ''actor-1'' no_tunnels
     = (Inl (BadRequestError ''Failed to get gateway connection details for TCP tunnel''), no_tunnels)
   \<and> fst (executeQuery (deps1 None None) net1 ''session-1'' ''SELECT 1'' ''actor-1'' no_tunnels)
     \<noteq> Inl (BadRequestError ''Failed to get gateway connection details'')"
  by (simp add: run_defs)

section \<open>The direct connection pool\<close>

text \<open>
  C9. When \<^verbatim>\<open>createConnection(S, c, k)\<close> returns the connection \<open>C\<close>, the pool has an
  entry for \<open>S\<close> that holds \<open>C\<close>; \<^verbatim>\<open>getConnection(S)\<close> then returns \<open>C\<close>, and a second
  \<^verbatim>\<open>createConnection(S, c', k')\<close>, whatever the credentials, the kind and the driver's
  answers, returns \<open>C\<close> too, makes no call to a driver and changes nothing but
  \<^verbatim>\<open>lastUsed\<close> of that entry. The pool is a map, so it holds one entry per session id at
  most.
\<close>

theorem createConnection_reuses:
  assumes "createConnection drv t sid creds kind st = (Inr C, st1)"
  shows "\<exists>entry. connections st1 sid = Some entry \<and> connection entry = C
           \<and> getConnection t1 sid st1
               = (Inr C, st1\<lparr>connections := (connections st1)(sid \<mapsto> entry\<lparr>lastUsed := t1\<rparr>)\<rparr>)
           \<and> createConnection drv' t2 sid creds' kind' st1
               = (Inr C, st1\<lparr>connections := (connections st1)(sid \<mapsto> entry\<lparr>lastUsed := t2\<rparr>)\<rparr>)
           \<and> next_connection (snd (createConnection drv' t2 sid creds' kind' st1)) = next_connection st1
           \<and> driver_calls (snd (createConnection drv' t2 sid creds' kind' st1)) = driver_calls st1
           \<and> fst (getConnection t3 sid (snd (createConnection drv' t2 sid creds' kind' st1))) = Inr C"
  using assms
  by (auto simp: createConnection_def getConnection_def Let_def split: option.splits)

theorem createConnection_reuses_witness:
  "createConnection driver_ok 5 ''session-1'' creds1 postgres empty_pool = (Inr 0, pool_one)
   \<and> fst (getConnection 7 ''session-1'' pool_one) = Inr 0
   \<and> fst (createConnection driver_down 9 ''session-1'' (creds1\<lparr>c_database := ''other''\<rparr>) mysql pool_one) = Inr 0
   \<and> driver_calls (snd (createConnection driver_down 9 ''session-1'' (creds1\<lparr>c_database := ''other''\<rparr>)
                          mysql pool_one))
       = [Connect postgres creds1]"
proof -
  have a: "createConnection driver_ok 5 ''session-1'' creds1 postgres empty_pool = (Inr 0, pool_one)"
    by (simp add: createConnection_def driver_ok_def empty_pool_def pool_one_def Let_def)
  have b: "driver_calls pool_one = [Connect postgres creds1]"
    by (simp add: pool_one_def)
  obtain entry where e: "connections pool_one ''session-1'' = Some entry \<and> connection entry = 0
           \<and> getConnection 7 ''session-1'' pool_one
               = (Inr 0, pool_one\<lparr>connections := (connections pool_one)(''session-1'' \<mapsto> entry\<lparr>lastUsed := 7\<rparr>)\<rparr>)
           \<and> createConnection driver_down 9 ''session-1'' (creds1\<lparr>c_database := ''other''\<rparr>) mysql pool_one
               = (Inr 0, pool_one\<lparr>connections := (connections pool_one)(''session-1'' \<mapsto> entry\<lparr>lastUsed := 9\<rparr>)\<rparr>)
           \<and> next_connection (snd (createConnection driver_down 9 ''session-1''
                 (creds1\<lparr>c_database := ''other''\<rparr>) mysql pool_one)) = next_connection pool_one
           \<and> driver_calls (snd (createConnection driver_down 9 ''session-1''
                 (creds1\<lparr>c_database := ''other''\<rparr>) mysql pool_one)) = driver_calls pool_one
           \<and> fst (getConnection 11 ''session-1'' (snd (createConnection driver_down 9 ''session-1''
                 (creds1\<lparr>c_database := ''other''\<rparr>) mysql pool_one))) = Inr 0"
    using createConnection_reuses [OF a, of 7 driver_down 9 "creds1\<lparr>c_database := ''other''\<rparr>" mysql 11]
    by blast
  then show ?thesis using a b by simp
qed

text \<open>
  C10. For every session id that has no entry in the pool, \<^verbatim>\<open>healthCheck\<close> returns
  \<^verbatim>\<open>false\<close> (it does not throw) and leaves the whole state as it is: the map of
  connections is unchanged and no statement is sent to a driver. The map changes only
  when the entry is present and its probe fails, and then the entry is removed.
\<close>

theorem healthCheck_absent:
  "(connections st sid = None \<longrightarrow> healthCheck drv sid st = (Inr False, st))
   \<and> (connections (snd (healthCheck drv sid st)) \<noteq> connections st \<longrightarrow>
        (\<exists>pooled error.
           connections st sid = Some pooled
           \<and> query_answer drv (connection pooled) ''SELECT 1'' = Some error
           \<and> connections (snd (healthCheck drv sid st)) = (connections st)(sid := None)))"
  by (auto simp: healthCheck_def closeConnection_def Let_def split: option.splits)

theorem healthCheck_absent_witness:
  "connections empty_pool ''session-1'' = None
   \<and> healthCheck driver_ok ''session-1'' empty_pool = (Inr False, empty_pool)
   \<and> connections (snd (healthCheck driver_down ''session-1'' pool_one)) \<noteq> connections pool_one
   \<and> connections (snd (healthCheck driver_down ''session-1'' pool_one))
       = (connections pool_one)(''session-1'' := None)"
proof -
  have a: "connections empty_pool ''session-1'' = None" by (simp add: empty_pool_def)
  have "connections (snd (healthCheck driver_down ''session-1'' pool_one)) ''session-1''
          \<noteq> connections pool_one ''session-1''"
    by (simp add: healthCheck_def closeConnection_def driver_down_def pool_one_def Let_def)
  then have b: "connections (snd (healthCheck driver_down ''session-1'' pool_one)) \<noteq> connections pool_one"
    by metis
  show ?thesis
    using healthCheck_absent [of empty_pool "''session-1''" driver_ok]
      healthCheck_absent [of pool_one "''session-1''" driver_down] a b
    by blast
qed

end
